theory Spec2Isabelle
  imports Complex_Main "HOL-Library.AList" "HOL-Library.Multiset"
begin

section \<open>Python values\<close>

text \<open>
  The engine of \<^verbatim>\<open>src/app.py\<close> (class \<^verbatim>\<open>TaskScheduler\<close>) works on dictionaries
  that come from JSON. A value is one of the JSON shapes. Conventions of the model:
  \<^item> a \<^verbatim>\<open>float\<close> is an exact rational (no binary rounding, no nan or infinity);
  \<^item> a \<^verbatim>\<open>datetime\<close> is a number of microseconds, naive (no UTC offset, as
    \<^verbatim>\<open>datetime.now()\<close> returns it) or aware (with an offset; the number is then the UTC
    instant); the range limits of \<^verbatim>\<open>datetime\<close> and \<^verbatim>\<open>timedelta\<close> are not modelled;
  \<^item> \<open>PIso d\<close> is a \<^verbatim>\<open>str\<close> that \<^verbatim>\<open>datetime.fromisoformat\<close> accepts, identified with
    the datetime \<open>d\<close> it parses to; \<open>PStr s\<close> is any other \<^verbatim>\<open>str\<close>;
  \<^item> every read of \<^verbatim>\<open>datetime.now()\<close> during one call of an engine operation returns
    the same instant \<open>now\<close>, which the operation takes as a parameter.
\<close>

datatype datetime = Naive int | Aware int

datatype pyval =
    PNone
  | PBool bool
  | PInt int
  | PFloat rat
  | PStr string
  | PIso datetime
  | PList "pyval list"
  | PDict "(string \<times> pyval) list"

type_synonym pydict = "string \<rightharpoonup> pyval"

text \<open>The exceptions the engine can raise, and the result of an engine call:
  \<open>Raised e\<close> for an exception, \<open>NotFound\<close> for the returned dictionary
  \<^verbatim>\<open>{'error': 'Task not found'}\<close>. \<open>NotModelled\<close> is no exception of Python: it marks
  the few runs that the model does not follow (the ordering of two strs or two lists).\<close>

datatype pyexc = TypeError | ValueError | KeyError | AttributeError | NotModelled

datatype failure = Raised pyexc | NotFound

text \<open>\<^verbatim>\<open>d.get(k, default)\<close> and \<^verbatim>\<open>d[k]\<close>.\<close>

definition dict_get :: "pydict \<Rightarrow> string \<Rightarrow> pyval \<Rightarrow> pyval" where
  "dict_get d k dflt = (case d k of None \<Rightarrow> dflt | Some v \<Rightarrow> v)"

definition dict_item :: "pydict \<Rightarrow> string \<Rightarrow> pyexc + pyval" where
  "dict_item d k = (case d k of None \<Rightarrow> Inl KeyError | Some v \<Rightarrow> Inr v)"

text \<open>Sequencing of computations that may raise: the first exception wins.\<close>

definition and_then :: "'e + 'a \<Rightarrow> ('a \<Rightarrow> 'e + 'b) \<Rightarrow> 'e + 'b" where
  "and_then m f = (case m of Inl e \<Rightarrow> Inl e | Inr x \<Rightarrow> f x)"

section \<open>The task store\<close>

text \<open>
  \<^verbatim>\<open>self.tasks\<close> is a \<^verbatim>\<open>dict\<close> from task id to task dictionary. Python dictionaries
  keep insertion order, and the order shows in the conflict list and in the listing, so
  the store is an association list: assigning to an existing key keeps its place,
  assigning to a new key appends (\<open>AList.update\<close>), \<^verbatim>\<open>pop\<close> removes the key
  (\<open>AList.delete\<close>). The second attribute \<^verbatim>\<open>self.schedule\<close> is never read or written
  after \<^verbatim>\<open>__init__\<close>.
\<close>

type_synonym store = "(string \<times> pydict) list"

definition in_store :: "string \<Rightarrow> store \<Rightarrow> bool" where
  "in_store task_id s = (map_of s task_id \<noteq> None)"

section \<open>Numbers\<close>

text \<open>
  Python numbers as the engine meets them: \<^verbatim>\<open>int\<close> (and \<^verbatim>\<open>bool\<close>, which is an
  \<^verbatim>\<open>int\<close>) and \<^verbatim>\<open>float\<close>. An operation on two ints gives an int, true division and any
  operation with a float give a float. \<^verbatim>\<open>max(a, b)\<close> returns \<open>b\<close> only when \<open>b > a\<close>,
  \<^verbatim>\<open>min(a, b)\<close> returns \<open>b\<close> only when \<open>b < a\<close>. \<^verbatim>\<open>round(x, 2)\<close> returns an int
  unchanged and rounds a float to the nearest multiple of 1/100, ties to the even one.
\<close>

datatype number = IntN int | FloatN rat

fun n_val :: "number \<Rightarrow> rat" where
  "n_val (IntN i) = of_int i"
| "n_val (FloatN r) = r"

fun to_number :: "pyval \<Rightarrow> number option" where
  "to_number (PBool b) = Some (IntN (if b then 1 else 0))"
| "to_number (PInt i) = Some (IntN i)"
| "to_number (PFloat r) = Some (FloatN r)"
| "to_number _ = None"

fun of_number :: "number \<Rightarrow> pyval" where
  "of_number (IntN i) = PInt i"
| "of_number (FloatN r) = PFloat r"

fun n_add :: "number \<Rightarrow> number \<Rightarrow> number" where
  "n_add (IntN a) (IntN b) = IntN (a + b)"
| "n_add a b = FloatN (n_val a + n_val b)"

fun n_sub :: "number \<Rightarrow> number \<Rightarrow> number" where
  "n_sub (IntN a) (IntN b) = IntN (a - b)"
| "n_sub a b = FloatN (n_val a - n_val b)"

fun n_mul :: "number \<Rightarrow> number \<Rightarrow> number" where
  "n_mul (IntN a) (IntN b) = IntN (a * b)"
| "n_mul a b = FloatN (n_val a * n_val b)"

definition n_truediv :: "number \<Rightarrow> number \<Rightarrow> number" where
  "n_truediv a b = FloatN (n_val a / n_val b)"

definition n_max :: "number \<Rightarrow> number \<Rightarrow> number" where
  "n_max a b = (if n_val b > n_val a then b else a)"

definition n_min :: "number \<Rightarrow> number \<Rightarrow> number" where
  "n_min a b = (if n_val b < n_val a then b else a)"

definition round_half_even :: "rat \<Rightarrow> int" where
  "round_half_even r =
     (let f = \<lfloor>r\<rfloor>; d = r - of_int f
      in if d < 1 / 2 then f else if 1 / 2 < d then f + 1 else if even f then f else f + 1)"

definition round2 :: "rat \<Rightarrow> rat" where
  "round2 r = of_int (round_half_even (r * 100)) / 100"

fun n_round2 :: "number \<Rightarrow> number" where
  "n_round2 (IntN i) = IntN i"
| "n_round2 (FloatN r) = FloatN (round2 r)"

section \<open>Dates and times\<close>

text \<open>
  \<^verbatim>\<open>datetime.fromisoformat\<close> raises TypeError on a value that is not a \<^verbatim>\<open>str\<close> and
  ValueError on a \<^verbatim>\<open>str\<close> it cannot parse. Comparing or subtracting a naive and an aware
  datetime raises TypeError. \<^verbatim>\<open>timedelta(minutes=x)\<close> wants a number and rounds to the
  microsecond. Durations are numbers of microseconds.
\<close>

fun fromisoformat :: "pyval \<Rightarrow> pyexc + datetime" where
  "fromisoformat (PIso d) = Inr d"
| "fromisoformat (PStr s) = Inl ValueError"
| "fromisoformat _ = Inl TypeError"

definition isoformat :: "int \<Rightarrow> pyval" where
  "isoformat t = PIso (Naive t)"

fun dt_add :: "datetime \<Rightarrow> int \<Rightarrow> datetime" where
  "dt_add (Naive t) d = Naive (t + d)"
| "dt_add (Aware t) d = Aware (t + d)"

fun dt_sub :: "datetime \<Rightarrow> datetime \<Rightarrow> pyexc + int" where
  "dt_sub (Naive a) (Naive b) = Inr (a - b)"
| "dt_sub (Aware a) (Aware b) = Inr (a - b)"
| "dt_sub _ _ = Inl TypeError"

fun dt_lt :: "datetime \<Rightarrow> datetime \<Rightarrow> pyexc + bool" where
  "dt_lt (Naive a) (Naive b) = Inr (a < b)"
| "dt_lt (Aware a) (Aware b) = Inr (a < b)"
| "dt_lt _ _ = Inl TypeError"

definition timedelta_minutes :: "pyval \<Rightarrow> pyexc + int" where
  "timedelta_minutes v =
     (case to_number v of
        None \<Rightarrow> Inl TypeError
      | Some (IntN i) \<Rightarrow> Inr (i * 60000000)
      | Some (FloatN r) \<Rightarrow> Inr (round_half_even (r * 60000000)))"

definition hour :: int where
  "hour = 3600000000"

definition days :: "int \<Rightarrow> int" where
  "days n = n * 24 * hour"

text \<open>\<^verbatim>\<open>td.total_seconds() / 3600\<close>: a duration in hours, a float.\<close>

definition hours_of :: "int \<Rightarrow> number" where
  "hours_of delta = FloatN (of_int delta / 1000000 / 3600)"

section \<open>The engine\<close>

subsection \<open>\<^verbatim>\<open>calculate_priority_score\<close>\<close>

text \<open>\<^verbatim>\<open>max(0, 10 - (time_until_deadline / 24))\<close>\<close>

definition urgency_factor :: "number \<Rightarrow> number" where
  "urgency_factor time_until_deadline =
     n_max (IntN 0) (n_sub (IntN 10) (n_truediv time_until_deadline (IntN 24)))"

text \<open>\<^verbatim>\<open>min(estimated_duration / 120, 2)\<close>; the division raises TypeError on a value
  that is not a number.\<close>

definition duration_factor :: "pyval \<Rightarrow> pyexc + number" where
  "duration_factor estimated_duration =
     (case to_number estimated_duration of
        None \<Rightarrow> Inl TypeError
      | Some m \<Rightarrow> Inr (n_min (n_truediv m (IntN 120)) (IntN 2)))"

text \<open>\<^verbatim>\<open>(base_priority * 2) + urgency_factor + duration_factor\<close>. With a base priority
  that is not a number the expression raises TypeError (at the product, or for a
  \<^verbatim>\<open>str\<close> or a list at the sum that follows it).\<close>

definition priority_sum :: "pyval \<Rightarrow> number \<Rightarrow> number \<Rightarrow> pyexc + number" where
  "priority_sum base_priority urgency duration =
     (case to_number base_priority of
        None \<Rightarrow> Inl TypeError
      | Some p \<Rightarrow> Inr (n_add (n_add (n_mul p (IntN 2)) urgency) duration))"

definition calculate_priority_score :: "int \<Rightarrow> pydict \<Rightarrow> pyexc + pyval" where
  "calculate_priority_score now task =
     (let base_priority = dict_get task ''priority'' (PInt 5) in
      and_then (fromisoformat (dict_get task ''deadline'' (isoformat now))) (\<lambda>deadline.
      let estimated_duration = dict_get task ''estimated_duration'' (PInt 60) in
      and_then (dt_sub deadline (Naive now)) (\<lambda>delta.
      let time_until_deadline = hours_of delta in
      and_then (duration_factor estimated_duration) (\<lambda>dur.
      and_then (priority_sum base_priority (urgency_factor time_until_deadline) dur)
        (\<lambda>priority_score. Inr (of_number (n_round2 priority_score)))))))"

subsection \<open>\<^verbatim>\<open>detect_conflicts\<close>\<close>

record conflict =
  c_task_id :: string
  c_title :: pyval
  c_time :: pyval

text \<open>Start and end of a task: lines 36-37 for the new task, 43-44 for a stored one.\<close>

definition interval_of :: "int \<Rightarrow> pydict \<Rightarrow> pyexc + (datetime \<times> datetime)" where
  "interval_of now task =
     and_then (fromisoformat (dict_get task ''scheduled_time'' (isoformat now))) (\<lambda>start.
     and_then (timedelta_minutes (dict_get task ''estimated_duration'' (PInt 60))) (\<lambda>d.
     Inr (start, dt_add start d)))"

text \<open>\<^verbatim>\<open>new_start < task_end and new_end > task_start\<close>, the second comparison only
  when the first is true.\<close>

definition overlap :: "datetime \<Rightarrow> datetime \<Rightarrow> datetime \<Rightarrow> datetime \<Rightarrow> pyexc + bool" where
  "overlap new_start new_end task_start task_end =
     and_then (dt_lt new_start task_end) (\<lambda>b.
       if b then dt_lt task_start new_end else Inr False)"

fun detect_loop :: "int \<Rightarrow> datetime \<Rightarrow> datetime \<Rightarrow> store \<Rightarrow> pyexc + conflict list" where
  "detect_loop now new_start new_end [] = Inr []"
| "detect_loop now new_start new_end ((task_id, task) # rest) =
     (if dict_get task ''status'' PNone = PStr ''completed''
      then detect_loop now new_start new_end rest
      else
        and_then (interval_of now task) (\<lambda>(task_start, task_end).
        and_then (overlap new_start new_end task_start task_end) (\<lambda>hit.
        and_then (detect_loop now new_start new_end rest) (\<lambda>conflicts.
        Inr (if hit
             then \<lparr>c_task_id = task_id,
                   c_title = dict_get task ''title'' PNone,
                   c_time = dict_get task ''scheduled_time'' PNone\<rparr> # conflicts
             else conflicts)))))"

definition detect_conflicts :: "int \<Rightarrow> pydict \<Rightarrow> store \<Rightarrow> pyexc + conflict list" where
  "detect_conflicts now new_task s =
     and_then (interval_of now new_task) (\<lambda>(new_start, new_end).
       detect_loop now new_start new_end s)"

subsection \<open>\<^verbatim>\<open>suggest_optimal_time\<close>\<close>

record suggestion =
  suggested_time :: pyval
  reason :: string
  confidence :: int

function suggest_loop :: "int \<Rightarrow> pydict \<Rightarrow> store \<Rightarrow> datetime \<Rightarrow> int \<Rightarrow> pyexc + suggestion" where
  "suggest_loop now task s deadline current_time =
     (case dt_lt (Naive current_time) deadline of
        Inl e \<Rightarrow> Inl e
      | Inr go \<Rightarrow>
          if go then
            (case detect_conflicts now (task(''scheduled_time'' \<mapsto> isoformat current_time)) s of
               Inl e \<Rightarrow> Inl e
             | Inr conflicts \<Rightarrow>
                 if conflicts = []
                 then Inr \<lparr>suggested_time = isoformat current_time,
                           reason = ''No conflicts detected'', confidence = 95\<rparr>
                 else suggest_loop now task s deadline (current_time + hour))
          else Inr \<lparr>suggested_time = isoformat current_time,
                    reason = ''Best available slot near deadline'', confidence = 60\<rparr>)"
  by pat_completeness auto
termination
proof (relation "measure (\<lambda>(now, task, s, deadline, current_time).
    nat ((case deadline of Naive d \<Rightarrow> d | Aware d \<Rightarrow> d) - current_time))")
  show "wf (measure (\<lambda>(now, task, s, deadline, current_time).
    nat ((case deadline of Naive d \<Rightarrow> d | Aware d \<Rightarrow> d) - current_time)))"
    by simp
next
  fix now :: int and task :: pydict and s :: store and deadline current_time go conflicts
  assume "dt_lt (Naive current_time) deadline = Inr go" and go
  then show "((now, task, s, deadline, current_time + hour), now, task, s, deadline, current_time)
      \<in> measure (\<lambda>(now, task, s, deadline, current_time).
          nat ((case deadline of Naive d \<Rightarrow> d | Aware d \<Rightarrow> d) - current_time))"
    by (cases deadline) (auto simp: hour_def)
qed

definition suggest_optimal_time :: "int \<Rightarrow> pydict \<Rightarrow> store \<Rightarrow> pyexc + suggestion" where
  "suggest_optimal_time now task s =
     (let duration = dict_get task ''estimated_duration'' (PInt 60) in
      and_then (fromisoformat (dict_get task ''deadline'' (isoformat (now + days 7)))) (\<lambda>deadline.
        suggest_loop now task s deadline now))"

subsection \<open>\<^verbatim>\<open>create_task\<close>\<close>

text \<open>
  The dictionary literal of lines 92-103. \<open>task_id\<close> stands for the value of
  \<^verbatim>\<open>str(uuid.uuid4())[:8]\<close>, which the model takes as a parameter.
\<close>

definition new_task :: "int \<Rightarrow> string \<Rightarrow> pydict \<Rightarrow> pydict" where
  "new_task now task_id task_data =
     [''id'' \<mapsto> PStr task_id,
      ''title'' \<mapsto> dict_get task_data ''title'' (PStr ''Untitled Task''),
      ''description'' \<mapsto> dict_get task_data ''description'' (PStr []),
      ''priority'' \<mapsto> dict_get task_data ''priority'' (PInt 5),
      ''estimated_duration'' \<mapsto> dict_get task_data ''estimated_duration'' (PInt 60),
      ''deadline'' \<mapsto> dict_get task_data ''deadline'' (isoformat (now + days 7)),
      ''scheduled_time'' \<mapsto> dict_get task_data ''scheduled_time'' (isoformat now),
      ''status'' \<mapsto> PStr ''pending'',
      ''created_at'' \<mapsto> isoformat now,
      ''tags'' \<mapsto> dict_get task_data ''tags'' (PList [])]"

record create_response =
  cr_task :: pydict
  cr_conflicts :: "conflict list"
  cr_has_conflicts :: bool
  cr_suggestion :: "suggestion option"

text \<open>
  The call returns the store as the call leaves it and the response or the exception.
  The conflicts are computed before line 112 stores the task, the suggestion after it,
  so an exception of \<^verbatim>\<open>suggest_optimal_time\<close> leaves the task stored.
\<close>

definition create_task ::
  "int \<Rightarrow> string \<Rightarrow> pydict \<Rightarrow> store \<Rightarrow> store \<times> (failure + create_response)" where
  "create_task now task_id task_data s =
     (let task = new_task now task_id task_data in
      case calculate_priority_score now task of
        Inl e \<Rightarrow> (s, Inl (Raised e))
      | Inr score \<Rightarrow>
          let task = task(''priority_score'' \<mapsto> score) in
          case detect_conflicts now task s of
            Inl e \<Rightarrow> (s, Inl (Raised e))
          | Inr conflicts \<Rightarrow>
              let s' = AList.update task_id task s in
              if conflicts \<noteq> [] then
                (case suggest_optimal_time now task s' of
                   Inl e \<Rightarrow> (s', Inl (Raised e))
                 | Inr sg \<Rightarrow>
                     (s', Inr \<lparr>cr_task = task, cr_conflicts = conflicts,
                               cr_has_conflicts = (length conflicts > 0),
                               cr_suggestion = Some sg\<rparr>))
              else
                (s', Inr \<lparr>cr_task = task, cr_conflicts = conflicts,
                          cr_has_conflicts = (length conflicts > 0),
                          cr_suggestion = None\<rparr>))"

subsection \<open>\<^verbatim>\<open>update_task\<close>\<close>

record update_response =
  up_task :: pydict
  up_message :: string

text \<open>
  \<^verbatim>\<open>task.update(updates)\<close> changes the stored dictionary in place (\<open>task ++ updates\<close>),
  before the score is computed: when \<^verbatim>\<open>calculate_priority_score\<close> raises, the merged
  fields stay in the store.
\<close>

definition update_task ::
  "int \<Rightarrow> string \<Rightarrow> pydict \<Rightarrow> store \<Rightarrow> store \<times> (failure + update_response)" where
  "update_task now task_id updates s =
     (case map_of s task_id of
        None \<Rightarrow> (s, Inl NotFound)
      | Some task \<Rightarrow>
          let task = task ++ updates in
          case calculate_priority_score now task of
            Inl e \<Rightarrow> (AList.update task_id task s, Inl (Raised e))
          | Inr score \<Rightarrow>
              let task = task(''priority_score'' \<mapsto> score, ''updated_at'' \<mapsto> isoformat now) in
              (AList.update task_id task s,
               Inr \<lparr>up_task = task, up_message = ''Task updated successfully''\<rparr>))"

subsection \<open>\<^verbatim>\<open>delete_task\<close>\<close>

record delete_response =
  del_message :: string
  del_task :: pydict

definition delete_task :: "string \<Rightarrow> store \<Rightarrow> store \<times> (failure + delete_response)" where
  "delete_task task_id s =
     (case map_of s task_id of
        None \<Rightarrow> (s, Inl NotFound)
      | Some deleted_task \<Rightarrow>
          (AList.delete task_id s,
           Inr \<lparr>del_message = ''Task deleted successfully'', del_task = deleted_task\<rparr>))"

subsection \<open>\<^verbatim>\<open>get_schedule\<close>\<close>

text \<open>
  Truth value of a value in a condition, \<^verbatim>\<open>==\<close>, and the order comparisons. Numbers
  compare by value across \<^verbatim>\<open>int\<close>, \<^verbatim>\<open>bool\<close> and \<^verbatim>\<open>float\<close>; other values are equal
  when they are the same value (for containers this ignores that Python compares the
  numbers inside them by value). An order comparison of a number with a value that is
  not a number, or of two values that are not numbers, raises TypeError; Python does
  order two strs and two lists, which the model does not follow and reports as
  \<open>NotModelled\<close>.
\<close>

fun truthy :: "pyval \<Rightarrow> bool" where
  "truthy PNone = False"
| "truthy (PBool b) = b"
| "truthy (PInt i) = (i \<noteq> 0)"
| "truthy (PFloat r) = (r \<noteq> 0)"
| "truthy (PStr s) = (s \<noteq> [])"
| "truthy (PIso d) = True"
| "truthy (PList xs) = (xs \<noteq> [])"
| "truthy (PDict kvs) = (kvs \<noteq> [])"

definition py_eq :: "pyval \<Rightarrow> pyval \<Rightarrow> bool" where
  "py_eq a b =
     (case (to_number a, to_number b) of
        (Some x, Some y) \<Rightarrow> n_val x = n_val y
      | _ \<Rightarrow> a = b)"

fun is_str :: "pyval \<Rightarrow> bool" where
  "is_str (PStr s) = True"
| "is_str (PIso d) = True"
| "is_str _ = False"

fun is_list :: "pyval \<Rightarrow> bool" where
  "is_list (PList xs) = True"
| "is_list _ = False"

definition compare_numbers :: "pyval \<Rightarrow> pyval \<Rightarrow> pyexc + (rat \<times> rat)" where
  "compare_numbers a b =
     (case (to_number a, to_number b) of
        (Some x, Some y) \<Rightarrow> Inr (n_val x, n_val y)
      | _ \<Rightarrow> if (is_str a \<and> is_str b) \<or> (is_list a \<and> is_list b)
             then Inl NotModelled else Inl TypeError)"

definition py_lt :: "pyval \<Rightarrow> pyval \<Rightarrow> pyexc + bool" where
  "py_lt a b = and_then (compare_numbers a b) (\<lambda>(x, y). Inr (x < y))"

definition py_le :: "pyval \<Rightarrow> pyval \<Rightarrow> pyexc + bool" where
  "py_le a b = and_then (compare_numbers a b) (\<lambda>(x, y). Inr (x \<le> y))"

definition py_ge :: "pyval \<Rightarrow> pyval \<Rightarrow> pyexc + bool" where
  "py_ge a b = and_then (compare_numbers a b) (\<lambda>(x, y). Inr (x \<ge> y))"

text \<open>A list comprehension \<^verbatim>\<open>[t for t in xs if p(t)]\<close> whose condition may raise.\<close>

fun comprehension :: "('a \<Rightarrow> pyexc + bool) \<Rightarrow> 'a list \<Rightarrow> pyexc + 'a list" where
  "comprehension p [] = Inr []"
| "comprehension p (x # xs) =
     and_then (p x) (\<lambda>b.
     and_then (comprehension p xs) (\<lambda>ys. Inr (if b then x # ys else ys)))"

text \<open>\<^verbatim>\<open>len([t for t in xs if p(t)])\<close>\<close>

definition count_where :: "('a \<Rightarrow> pyexc + bool) \<Rightarrow> 'a list \<Rightarrow> pyexc + nat" where
  "count_where p xs = and_then (comprehension p xs) (\<lambda>ys. Inr (length ys))"

text \<open>The keys of a sort: \<^verbatim>\<open>key(x)\<close> for every element, in order.\<close>

fun collect :: "('a \<Rightarrow> pyexc + 'b) \<Rightarrow> 'a list \<Rightarrow> pyexc + 'b list" where
  "collect f [] = Inr []"
| "collect f (x # xs) =
     and_then (f x) (\<lambda>y. and_then (collect f xs) (\<lambda>ys. Inr (y # ys)))"

text \<open>
  \<^verbatim>\<open>tasks_list.sort(key=lambda x: x['priority_score'], reverse=True)\<close>. The keys are
  read first (KeyError on a task without score). A list of fewer than two elements is
  not compared at all. Otherwise the sort compares the keys: when all are numbers, the
  result is the stable sort by descending key (elements with equal keys keep their
  order), here the insertion sort \<open>sort_key\<close> on the negated key, which is stable.
\<close>

definition score_key :: "pydict \<Rightarrow> rat" where
  "score_key t =
     (case t ''priority_score'' of
        None \<Rightarrow> 0
      | Some v \<Rightarrow> (case to_number v of None \<Rightarrow> 0 | Some x \<Rightarrow> n_val x))"

definition list_sort_reverse :: "pydict list \<Rightarrow> pyexc + pydict list" where
  "list_sort_reverse ts =
     and_then (collect (\<lambda>x. dict_item x ''priority_score'') ts) (\<lambda>keys.
       if length ts < 2 \<or> list_all (\<lambda>k. to_number k \<noteq> None) keys
       then Inr (sort_key (\<lambda>x. - score_key x) ts)
       else if list_all is_str keys \<or> list_all is_list keys then Inl NotModelled
       else Inl TypeError)"

text \<open>
  The objects of \<^verbatim>\<open>get_schedule\<close>. The method builds lists and sorts one of them in
  place, so it is modelled on a heap of objects: an address is an index into the heap,
  a new object goes to the end. \<^verbatim>\<open>self.tasks\<close> is the address of a dictionary object;
  \<^verbatim>\<open>list(...)\<close> and each list comprehension allocate a new list object;
  \<^verbatim>\<open>tasks_list.sort\<close> overwrites the object that \<^verbatim>\<open>tasks_list\<close> refers to.
  The method writes to no task dictionary, so the lists hold the tasks as values.
\<close>

datatype pyobj = DictObj store | ListObj "pydict list"

type_synonym heap = "pyobj list"

definition alloc :: "heap \<Rightarrow> pyobj \<Rightarrow> heap \<times> nat" where
  "alloc h ob = (h @ [ob], length h)"

definition list_at :: "heap \<Rightarrow> nat \<Rightarrow> pydict list" where
  "list_at h a = (case h ! a of ListObj xs \<Rightarrow> xs | DictObj s \<Rightarrow> [])"

text \<open>The filters: \<^verbatim>\<open>None\<close> or a dictionary; \<^verbatim>\<open>filters.get(k)\<close>.\<close>

type_synonym filters = "(string \<times> pyval) list"

definition filter_get :: "filters \<Rightarrow> string \<Rightarrow> pyval" where
  "filter_get f k = (case map_of f k of None \<Rightarrow> PNone | Some v \<Rightarrow> v)"

text \<open>Lines 133 and 135: the conditions of the two comprehensions.\<close>

definition status_is :: "pyval \<Rightarrow> pydict \<Rightarrow> pyexc + bool" where
  "status_is wanted t = and_then (dict_item t ''status'') (\<lambda>v. Inr (py_eq v wanted))"

definition priority_at_least :: "pyval \<Rightarrow> pydict \<Rightarrow> pyexc + bool" where
  "priority_at_least wanted t = and_then (dict_item t ''priority'') (\<lambda>v. py_ge v wanted)"

text \<open>
  One filter of lines 131-135: \<^verbatim>\<open>if filters:\<close> and \<^verbatim>\<open>if filters.get(key):\<close> both test
  the truth value, so \<^verbatim>\<open>None\<close>, an empty dictionary, an absent key, an empty string and
  the number 0 all leave the list as it is. Otherwise the comprehension builds a new
  list object, and \<^verbatim>\<open>tasks_list\<close> refers to it from then on.
\<close>

definition apply_filter ::
  "heap \<Rightarrow> nat \<Rightarrow> filters option \<Rightarrow> string \<Rightarrow> (pyval \<Rightarrow> pydict \<Rightarrow> pyexc + bool)
     \<Rightarrow> heap \<times> (pyexc + nat)" where
  "apply_filter h tasks_list filters key test =
     (case filters of
        None \<Rightarrow> (h, Inr tasks_list)
      | Some f \<Rightarrow>
          if f \<noteq> [] \<and> truthy (filter_get f key) then
            (case comprehension (test (filter_get f key)) (list_at h tasks_list) of
               Inl e \<Rightarrow> (h, Inl e)
             | Inr kept \<Rightarrow> (case alloc h (ListObj kept) of (h', l) \<Rightarrow> (h', Inr l)))
          else (h, Inr tasks_list))"

record schedule_summary =
  sm_high_priority :: nat
  sm_medium_priority :: nat
  sm_low_priority :: nat
  sm_pending :: nat
  sm_in_progress :: nat
  sm_completed :: nat

text \<open>Lines 143-150. \<^verbatim>\<open>4 <= t['priority'] < 8\<close> reads the priority once and compares
  it with 8 only when it is at least 4.\<close>

definition has_status :: "string \<Rightarrow> pydict \<Rightarrow> pyexc + bool" where
  "has_status st t = and_then (dict_item t ''status'') (\<lambda>v. Inr (v = PStr st))"

definition summary_of :: "pydict list \<Rightarrow> pyexc + schedule_summary" where
  "summary_of ts =
     and_then (count_where (\<lambda>t. and_then (dict_item t ''priority'') (\<lambda>v. py_ge v (PInt 8))) ts)
       (\<lambda>high.
     and_then (count_where (\<lambda>t. and_then (dict_item t ''priority'') (\<lambda>v.
                  and_then (py_le (PInt 4) v) (\<lambda>b. if b then py_lt v (PInt 8) else Inr False))) ts)
       (\<lambda>medium.
     and_then (count_where (\<lambda>t. and_then (dict_item t ''priority'') (\<lambda>v. py_lt v (PInt 4))) ts)
       (\<lambda>low.
     and_then (count_where (has_status ''pending'') ts) (\<lambda>pending.
     and_then (count_where (has_status ''in_progress'') ts) (\<lambda>in_progress.
     and_then (count_where (has_status ''completed'') ts) (\<lambda>completed.
     Inr \<lparr>sm_high_priority = high, sm_medium_priority = medium, sm_low_priority = low,
          sm_pending = pending, sm_in_progress = in_progress,
          sm_completed = completed\<rparr>))))))"

record schedule_response =
  sr_total_tasks :: nat
  sr_tasks :: nat
  sr_summary :: schedule_summary

text \<open>
  \<^verbatim>\<open>get_schedule\<close> on the heap \<open>h\<close>, with \<open>self_tasks\<close> the address of \<^verbatim>\<open>self.tasks\<close>.
  It returns the heap after the call and the response or the exception; \<open>sr_tasks\<close> is
  the address of the returned list. A list object has no \<^verbatim>\<open>values\<close> method.
\<close>

definition get_schedule ::
  "heap \<Rightarrow> nat \<Rightarrow> filters option \<Rightarrow> heap \<times> (pyexc + schedule_response)" where
  "get_schedule h self_tasks filters =
     (case h ! self_tasks of
        ListObj xs \<Rightarrow> (h, Inl AttributeError)
      | DictObj s \<Rightarrow>
          (case alloc h (ListObj (map snd s)) of (h, tasks_list) \<Rightarrow>
          (case apply_filter h tasks_list filters ''status'' status_is of
             (h, Inl e) \<Rightarrow> (h, Inl e)
           | (h, Inr tasks_list) \<Rightarrow>
          (case apply_filter h tasks_list filters ''priority_min'' priority_at_least of
             (h, Inl e) \<Rightarrow> (h, Inl e)
           | (h, Inr tasks_list) \<Rightarrow>
          (case list_sort_reverse (list_at h tasks_list) of
             Inl e \<Rightarrow> (h, Inl e)
           | Inr sorted_list \<Rightarrow>
               (case h[tasks_list := ListObj sorted_list] of h \<Rightarrow>
               (case summary_of (list_at h tasks_list) of
                  Inl e \<Rightarrow> (h, Inl e)
                | Inr summary \<Rightarrow>
                    (h, Inr \<lparr>sr_total_tasks = length (list_at h tasks_list),
                            sr_tasks = tasks_list, sr_summary = summary\<rparr>))))))))"

section \<open>Reading the store, and the scenarios used below\<close>

text \<open>The value of field \<open>k\<close> of the task stored under \<open>task_id\<close>, if any.\<close>

definition stored_field :: "store \<Rightarrow> string \<Rightarrow> string \<Rightarrow> pyval option" where
  "stored_field s task_id k = (case map_of s task_id of None \<Rightarrow> None | Some t \<Rightarrow> t k)"

text \<open>A store with one task, created at time 0 from an empty request: priority 5,
  60 minutes, scheduled now, deadline in seven days.\<close>

definition one_task_store :: store where
  "one_task_store = fst (create_task 0 ''ab12cd34'' Map.empty [])"

text \<open>The request of the second task of the scenario: half an hour after the first,
  60 minutes long. The store that also holds a completed task over the same hours.\<close>

definition half_hour_request :: pydict where
  "half_hour_request =
     [''priority'' \<mapsto> PInt 7, ''scheduled_time'' \<mapsto> isoformat (30 * 60000000),
      ''estimated_duration'' \<mapsto> PInt 60]"

definition with_completed_store :: store where
  "with_completed_store =
     one_task_store @
     [(''done0001'', [''status'' \<mapsto> PStr ''completed'', ''scheduled_time'' \<mapsto> isoformat 0,
                      ''estimated_duration'' \<mapsto> PInt 120])]"

section \<open>What the claims say, in the terms of the model\<close>







text \<open>
  The listing as the claim describes it. A filter is in force when its value is true
  in a condition (\<open>active_filter\<close>). A task is selected when its status equals the status
  filter in force and its priority is at least the priority filter in force.
\<close>

definition active_filter :: "filters option \<Rightarrow> string \<Rightarrow> pyval option" where
  "active_filter filters key =
     (case filters of
        None \<Rightarrow> None
      | Some f \<Rightarrow> if truthy (filter_get f key) then Some (filter_get f key) else None)"

definition status_matches :: "pyval \<Rightarrow> pydict \<Rightarrow> bool" where
  "status_matches wanted t = (case t ''status'' of None \<Rightarrow> False | Some v \<Rightarrow> py_eq v wanted)"

definition priority_reaches :: "pyval \<Rightarrow> pydict \<Rightarrow> bool" where
  "priority_reaches wanted t =
     (case t ''priority'' of
        None \<Rightarrow> False
      | Some v \<Rightarrow>
          (case (to_number v, to_number wanted) of
             (Some x, Some y) \<Rightarrow> n_val y \<le> n_val x
           | _ \<Rightarrow> False))"

definition selected :: "filters option \<Rightarrow> pydict \<Rightarrow> bool" where
  "selected filters t =
     ((case active_filter filters ''status'' of
         None \<Rightarrow> True | Some wanted \<Rightarrow> status_matches wanted t) \<and>
      (case active_filter filters ''priority_min'' of
         None \<Rightarrow> True | Some wanted \<Rightarrow> priority_reaches wanted t))"

definition priority_val :: "pydict \<Rightarrow> rat" where
  "priority_val t =
     (case t ''priority'' of
        None \<Rightarrow> 0
      | Some v \<Rightarrow> (case to_number v of None \<Rightarrow> 0 | Some x \<Rightarrow> n_val x))"

definition numeric_score :: "pydict \<Rightarrow> bool" where
  "numeric_score t =
     (case t ''priority_score'' of None \<Rightarrow> False | Some v \<Rightarrow> to_number v \<noteq> None)"

text \<open>A task that the listing can read: it has a status, a numeric priority and a numeric
  score. A priority filter in force that is a number.\<close>

definition listable :: "pydict \<Rightarrow> bool" where
  "listable t =
     (t ''status'' \<noteq> None \<and>
      (case t ''priority'' of None \<Rightarrow> False | Some v \<Rightarrow> to_number v \<noteq> None) \<and>
      numeric_score t)"

definition numeric_floor :: "filters option \<Rightarrow> bool" where
  "numeric_floor filters =
     (case active_filter filters ''priority_min'' of
        None \<Rightarrow> True | Some wanted \<Rightarrow> to_number wanted \<noteq> None)"

text \<open>A store with one task of priority -1, and the filters that the route
  \<^verbatim>\<open>GET /tasks?priority_min=0\<close> passes.\<close>

definition low_priority_store :: store where
  "low_priority_store = fst (create_task 0 ''cd34ef56'' [''priority'' \<mapsto> PInt (- 1)] [])"

definition zero_filters :: "filters option" where
  "zero_filters = Some [(''status'', PNone), (''priority_min'', PInt 0)]"

text \<open>A store with two tasks, the second with the higher score, and filters that select
  both. Filters with an empty status, as the route \<^verbatim>\<open>GET /tasks?status=\<close> passes them.\<close>

definition two_task_store :: store where
  "two_task_store = fst (create_task 0 ''ef56ab78'' [''priority'' \<mapsto> PInt 9] one_task_store)"

definition floor_filters :: "filters option" where
  "floor_filters = Some [(''status'', PNone), (''priority_min'', PInt 5)]"

definition empty_status_filters :: "filters option" where
  "empty_status_filters = Some [(''status'', PStr []), (''priority_min'', PInt 0)]"

section \<open>Properties\<close>

lemma delete_as_filter: "AList.delete k s = filter (\<lambda>p. fst p \<noteq> k) s"
  by (induction s) (auto simp: AList.delete_eq)

lemmas engine_defs =
  stored_field_def create_task_def new_task_def calculate_priority_score_def dict_get_def
  and_then_def isoformat_def days_def hour_def hours_of_def duration_factor_def
  priority_sum_def urgency_factor_def n_truediv_def n_max_def n_min_def round2_def
  round_half_even_def detect_conflicts_def interval_of_def timedelta_minutes_def Let_def
  update_task_def overlap_def suggest_optimal_time_def one_task_store_def in_store_def
  half_hour_request_def with_completed_store_def

lemma keys_update: "map_of s k = Some t \<Longrightarrow> map fst (AList.update k v s) = map fst s"
  by (induction s) (auto split: if_splits)

subsection \<open>Creating\<close>

text \<open>
  Claim C2, as stated, fails: line 100 writes \<^verbatim>\<open>'status': 'pending'\<close> without reading
  the request. A request that carries \<^verbatim>\<open>status = 'completed'\<close> is stored as pending.
\<close>

theorem create_task_status_counterexample:
  "[''status'' \<mapsto> PStr ''completed''] ''status'' = Some (PStr ''completed'') \<and>
   \<not> isl (snd (create_task 0 ''ab12cd34'' [''status'' \<mapsto> PStr ''completed''] [])) \<and>
   stored_field (fst (create_task 0 ''ab12cd34'' [''status'' \<mapsto> PStr ''completed''] []))
     ''ab12cd34'' ''status'' = Some (PStr ''pending'')"
  by (simp add: engine_defs)

text \<open>
  Claim C2, amended. Every call of \<^verbatim>\<open>create_task\<close> that returns stores the task it
  returns under the new id, and the status of that task is \<^verbatim>\<open>'pending'\<close>, whatever the
  request says about status.
\<close>

theorem create_task_status_pending:
  assumes "create_task now task_id task_data s = (s', Inr r)"
  shows "map_of s' task_id = Some (cr_task r) \<and> cr_task r ''status'' = Some (PStr ''pending'')"
  using assms
  by (auto simp: create_task_def Let_def new_task_def AList.update_conv'
      split: sum.splits if_splits)

theorem create_task_status_pending_witness:
  "\<not> isl (snd (create_task 0 ''ab12cd34'' [''status'' \<mapsto> PStr ''in_progress''] [])) \<and>
   map_of (fst (create_task 0 ''ab12cd34'' [''status'' \<mapsto> PStr ''in_progress''] [])) ''ab12cd34'' =
     Some (cr_task (projr (snd (create_task 0 ''ab12cd34'' [''status'' \<mapsto> PStr ''in_progress''] [])))) \<and>
   cr_task (projr (snd (create_task 0 ''ab12cd34'' [''status'' \<mapsto> PStr ''in_progress''] [])))
     ''status'' = Some (PStr ''pending'')"
proof -
  have ok: "\<not> isl (snd (create_task 0 ''ab12cd34'' [''status'' \<mapsto> PStr ''in_progress''] []))"
    by (simp add: engine_defs)
  then have "create_task 0 ''ab12cd34'' [''status'' \<mapsto> PStr ''in_progress''] [] =
    (fst (create_task 0 ''ab12cd34'' [''status'' \<mapsto> PStr ''in_progress''] []),
     Inr (projr (snd (create_task 0 ''ab12cd34'' [''status'' \<mapsto> PStr ''in_progress''] []))))"
    by (metis prod.collapse sum.collapse(2))
  from create_task_status_pending [OF this] ok show ?thesis by simp
qed

subsection \<open>Updating\<close>

text \<open>
  Claim C3, as stated, fails: \<^verbatim>\<open>task.update(updates)\<close> copies every key of the update,
  \<^verbatim>\<open>'id'\<close> included. After an update that carries \<^verbatim>\<open>id = 'zz'\<close> the task stored under
  \<^verbatim>\<open>ab12cd34\<close> has the id field \<^verbatim>\<open>zz\<close>.
\<close>

theorem update_task_id_counterexample:
  "stored_field one_task_store ''ab12cd34'' ''id'' = Some (PStr ''ab12cd34'') \<and>
   \<not> isl (snd (update_task 1 ''ab12cd34'' [''id'' \<mapsto> PStr ''zz''] one_task_store)) \<and>
   stored_field (fst (update_task 1 ''ab12cd34'' [''id'' \<mapsto> PStr ''zz''] one_task_store))
     ''ab12cd34'' ''id'' = Some (PStr ''zz'')"
  by (simp add: engine_defs)

text \<open>
  Claim C3, amended. For a stored task and an update that has no \<^verbatim>\<open>id\<close> key, the id field
  of the task after the call is its id field before the call, whether the call returns or
  raises. Whatever the update holds, the keys of the store and their order stay the same.
\<close>

theorem update_task_keeps_id:
  assumes "map_of s task_id = Some t"
    and "update_task now task_id updates s = (s', res)"
  shows "map fst s' = map fst s \<and>
    (\<exists>t'. map_of s' task_id = Some t' \<and> (updates ''id'' = None \<longrightarrow> t' ''id'' = t ''id''))"
  using assms
  by (auto simp: update_task_def Let_def AList.update_conv' keys_update map_add_def
      split: sum.splits option.splits)

theorem update_task_keeps_id_witness:
  "in_store ''ab12cd34'' one_task_store \<and>
   [''title'' \<mapsto> PStr ''x''] ''id'' = None \<and>
   map fst (fst (update_task 1 ''ab12cd34'' [''title'' \<mapsto> PStr ''x''] one_task_store)) =
     map fst one_task_store \<and>
   stored_field (fst (update_task 1 ''ab12cd34'' [''title'' \<mapsto> PStr ''x''] one_task_store))
     ''ab12cd34'' ''id'' = stored_field one_task_store ''ab12cd34'' ''id''"
proof -
  obtain t where p: "map_of one_task_store ''ab12cd34'' = Some t"
    by (simp add: engine_defs)
  have q: "update_task 1 ''ab12cd34'' [''title'' \<mapsto> PStr ''x''] one_task_store =
      (fst (update_task 1 ''ab12cd34'' [''title'' \<mapsto> PStr ''x''] one_task_store),
       snd (update_task 1 ''ab12cd34'' [''title'' \<mapsto> PStr ''x''] one_task_store))"
    by simp
  from update_task_keeps_id [OF p q] p show ?thesis
    by (auto simp: stored_field_def in_store_def)
qed

text \<open>
  Claim C4, as stated, fails in its last part: the score is recomputed with the clock
  of the update. The task of \<open>one_task_store\<close> was scored 13.5 at time 0, seven days before
  its deadline; an empty update at the deadline stores the score 20.5.
\<close>

theorem update_task_empty_counterexample:
  "stored_field one_task_store ''ab12cd34'' ''priority_score'' = Some (PFloat (27 / 2)) \<and>
   \<not> isl (snd (update_task (days 7) ''ab12cd34'' Map.empty one_task_store)) \<and>
   stored_field (fst (update_task (days 7) ''ab12cd34'' Map.empty one_task_store))
     ''ab12cd34'' ''priority_score'' = Some (PFloat (41 / 2))"
  by (simp add: engine_defs)

text \<open>
  Claim C4, amended. An update of a stored task with no field leaves every field of the
  task but \<^verbatim>\<open>updated_at\<close> and \<^verbatim>\<open>priority_score\<close> as it was, and every other task and the
  order of the store too. When the call returns, \<^verbatim>\<open>updated_at\<close> is the time of the call
  and \<^verbatim>\<open>priority_score\<close> is the score of the task at the time of the call; when the
  scoring raises, the task is unchanged.
\<close>

theorem update_task_empty:
  assumes "map_of s task_id = Some t"
    and "update_task now task_id Map.empty s = (s', res)"
  shows "\<exists>t'. map_of s' task_id = Some t' \<and>
      (\<forall>k. k \<noteq> ''updated_at'' \<longrightarrow> k \<noteq> ''priority_score'' \<longrightarrow> t' k = t k) \<and>
      (\<forall>k. k \<noteq> task_id \<longrightarrow> map_of s' k = map_of s k) \<and>
      map fst s' = map fst s \<and>
      (case res of
         Inl e \<Rightarrow> t' = t
       | Inr r \<Rightarrow> up_task r = t' \<and> t' ''updated_at'' = Some (isoformat now) \<and>
           (\<exists>score. calculate_priority_score now t = Inr score \<and>
                    t' ''priority_score'' = Some score))"
  using assms
  by (auto simp: update_task_def Let_def AList.update_conv' keys_update
      split: sum.splits option.splits)

theorem update_task_empty_witness:
  "in_store ''ab12cd34'' one_task_store \<and>
   (\<exists>t'. map_of (fst (update_task (days 7) ''ab12cd34'' Map.empty one_task_store)) ''ab12cd34''
          = Some t' \<and>
      (\<forall>k. k \<noteq> ''updated_at'' \<longrightarrow> k \<noteq> ''priority_score'' \<longrightarrow>
           t' k = the (map_of one_task_store ''ab12cd34'') k) \<and>
      t' ''priority_score'' = Some (PFloat (41 / 2)))"
proof -
  obtain t where p: "map_of one_task_store ''ab12cd34'' = Some t"
    by (simp add: engine_defs)
  have q: "update_task (days 7) ''ab12cd34'' Map.empty one_task_store =
      (fst (update_task (days 7) ''ab12cd34'' Map.empty one_task_store),
       snd (update_task (days 7) ''ab12cd34'' Map.empty one_task_store))"
    by simp
  have sc: "stored_field (fst (update_task (days 7) ''ab12cd34'' Map.empty one_task_store))
     ''ab12cd34'' ''priority_score'' = Some (PFloat (41 / 2))"
    by (simp add: engine_defs)
  from update_task_empty [OF p q] obtain t' where
    t': "map_of (fst (update_task (days 7) ''ab12cd34'' Map.empty one_task_store)) ''ab12cd34''
          = Some t'"
    and same: "\<forall>k. k \<noteq> ''updated_at'' \<longrightarrow> k \<noteq> ''priority_score'' \<longrightarrow> t' k = t k"
    by blast
  from sc t' have "t' ''priority_score'' = Some (PFloat (41 / 2))"
    by (simp add: stored_field_def)
  with t' same p show ?thesis
    by (auto simp: in_store_def)
qed

subsection \<open>Suggesting a slot when the deadline has passed\<close>

text \<open>
  Claim C9. When the task has a deadline that is not after \<open>now\<close>, the loop of
  \<^verbatim>\<open>suggest_optimal_time\<close> is not entered: the call returns \<open>now\<close> with the reason
  \<^verbatim>\<open>'Best available slot near deadline'\<close> and confidence 60, for every store, also for
  a store on which any conflict check would raise.
\<close>

theorem suggest_deadline_passed:
  assumes "task ''deadline'' = Some (PIso (Naive d))" and "d \<le> now"
  shows "suggest_optimal_time now task s =
     Inr \<lparr>suggested_time = isoformat now,
          reason = ''Best available slot near deadline'', confidence = 60\<rparr>"
  using assms
  by (simp add: suggest_optimal_time_def dict_get_def and_then_def Let_def)

theorem suggest_deadline_passed_witness:
  "[''deadline'' \<mapsto> PIso (Naive 3)] ''deadline'' = Some (PIso (Naive 3)) \<and> (3::int) \<le> 5 \<and>
   detect_conflicts 5 [''deadline'' \<mapsto> PIso (Naive 3)]
     [(''x'', [''scheduled_time'' \<mapsto> PStr ''soon''])] = Inl ValueError \<and>
   suggest_optimal_time 5 [''deadline'' \<mapsto> PIso (Naive 3)]
     [(''x'', [''scheduled_time'' \<mapsto> PStr ''soon''])] =
     Inr \<lparr>suggested_time = isoformat 5,
          reason = ''Best available slot near deadline'', confidence = 60\<rparr>"
  using suggest_deadline_passed [of "[''deadline'' \<mapsto> PIso (Naive 3)]" 3 5
      "[(''x'', [''scheduled_time'' \<mapsto> PStr ''soon''])]"]
  by (simp add: engine_defs)

subsection \<open>The priority score\<close>














subsection \<open>Detecting conflicts\<close>







subsection \<open>The suggestion of \<^verbatim>\<open>create_task\<close>\<close>

text \<open>
  Claim C1 at a concrete input (the scenario of the specification: a task at time 0 for
  60 minutes in the store, a second one requested 30 minutes later for 60 minutes, the
  clock at 0). The conflict list of the response is computed before the new task is
  stored and holds the first task only. The suggestion is computed after line 112 has
  stored the new task: the slot one hour from now is free of the first task but
  overlaps the new task's own requested interval, so the response suggests two hours
  from now, while the slot suggestion run on the request against the store before the
  insertion gives one hour from now.
\<close>

theorem create_task_suggestion_counts_new_task:
  "map c_task_id
     (cr_conflicts (projr (snd (create_task 0 ''ef56ab78'' half_hour_request one_task_store))))
     = [''ab12cd34''] \<and>
   cr_suggestion (projr (snd (create_task 0 ''ef56ab78'' half_hour_request one_task_store))) =
     Some \<lparr>suggested_time = isoformat (2 * hour), reason = ''No conflicts detected'',
           confidence = 95\<rparr> \<and>
   suggest_optimal_time 0 half_hour_request one_task_store =
     Inr \<lparr>suggested_time = isoformat hour, reason = ''No conflicts detected'',
          confidence = 95\<rparr>"
  by (simp add: engine_defs)

subsection \<open>Deleting\<close>

text \<open>
  Claim C8. \<^verbatim>\<open>delete_task\<close> answers NotFound exactly when the id is not a key of the
  store, and then the store is unchanged. When the id is a key, the call succeeds, returns
  the task stored under it, the id is no longer a key, every other key still maps to the
  same task, and the remaining entries keep their order.
\<close>

theorem delete_task_spec:
  "(snd (delete_task task_id s) = Inl NotFound \<longleftrightarrow> \<not> in_store task_id s) \<and>
   (\<not> in_store task_id s \<longrightarrow> delete_task task_id s = (s, Inl NotFound)) \<and>
   (in_store task_id s \<longrightarrow>
      (\<exists>t. map_of s task_id = Some t \<and>
           snd (delete_task task_id s) =
             Inr \<lparr>del_message = ''Task deleted successfully'', del_task = t\<rparr>) \<and>
      \<not> in_store task_id (fst (delete_task task_id s)) \<and>
      (\<forall>k. k \<noteq> task_id \<longrightarrow> map_of (fst (delete_task task_id s)) k = map_of s k) \<and>
      fst (delete_task task_id s) = filter (\<lambda>p. fst p \<noteq> task_id) s)"
proof (cases "map_of s task_id")
  case None
  then show ?thesis by (simp add: delete_task_def in_store_def)
next
  case (Some t)
  have del: "delete_task task_id s = (AList.delete task_id s,
      Inr \<lparr>del_message = ''Task deleted successfully'', del_task = t\<rparr>)"
    using Some by (simp add: delete_task_def)
  have gone: "map_of (AList.delete task_id s) task_id = None"
    by (simp add: AList.delete_conv')
  have others: "\<forall>k. k \<noteq> task_id \<longrightarrow> map_of (AList.delete task_id s) k = map_of s k"
    by (simp add: AList.delete_conv')
  show ?thesis
    using Some gone others by (simp add: del in_store_def delete_as_filter)
qed

theorem delete_task_spec_witness:
  "in_store ''a1'' [(''a1'', [''id'' \<mapsto> PStr ''a1'']), (''b2'', [''id'' \<mapsto> PStr ''b2''])] \<and>
   \<not> in_store ''zz'' [(''a1'', [''id'' \<mapsto> PStr ''a1'']), (''b2'', [''id'' \<mapsto> PStr ''b2''])] \<and>
   fst (delete_task ''a1'' [(''a1'', [''id'' \<mapsto> PStr ''a1'']), (''b2'', [''id'' \<mapsto> PStr ''b2''])])
     = [(''b2'', [''id'' \<mapsto> PStr ''b2''])] \<and>
   delete_task ''zz'' [(''a1'', [''id'' \<mapsto> PStr ''a1'']), (''b2'', [''id'' \<mapsto> PStr ''b2''])]
     = ([(''a1'', [''id'' \<mapsto> PStr ''a1'']), (''b2'', [''id'' \<mapsto> PStr ''b2''])], Inl NotFound)"
  using delete_task_spec [of "''a1''" "[(''a1'', [''id'' \<mapsto> PStr ''a1'']), (''b2'', [''id'' \<mapsto> PStr ''b2''])]"]
        delete_task_spec [of "''zz''" "[(''a1'', [''id'' \<mapsto> PStr ''a1'']), (''b2'', [''id'' \<mapsto> PStr ''b2''])]"]
  by (simp add: in_store_def)

subsection \<open>Listing\<close>

lemmas sched_defs = get_schedule_def alloc_def list_at_def apply_filter_def filter_get_def
  status_is_def priority_at_least_def summary_of_def count_where_def has_status_def
  list_sort_reverse_def dict_item_def py_eq_def py_lt_def py_le_def py_ge_def
  compare_numbers_def score_key_def low_priority_store_def zero_filters_def
  two_task_store_def floor_filters_def empty_status_filters_def priority_reaches_def
  status_matches_def active_filter_def selected_def priority_val_def listable_def
  numeric_floor_def numeric_score_def













lemma apply_filter_cases:
  assumes "apply_filter h l F key test = (h', res)"
  shows "(active_filter F key = None \<and> h' = h \<and> res = Inr l) \<or>
         (\<exists>w. active_filter F key = Some w \<and>
            ((\<exists>e. comprehension (test w) (list_at h l) = Inl e \<and> h' = h \<and> res = Inl e) \<or>
             (\<exists>kept. comprehension (test w) (list_at h l) = Inr kept \<and>
                h' = h @ [ListObj kept] \<and> res = Inr (length h))))"
proof (cases F)
  case None
  with assms show ?thesis by (simp add: apply_filter_def active_filter_def)
next
  case (Some f)
  show ?thesis
  proof (cases "truthy (filter_get f key)")
    case False
    with Some assms show ?thesis by (simp add: apply_filter_def active_filter_def)
  next
    case True
    then have "f \<noteq> []" by (auto simp: filter_get_def)
    with True Some assms show ?thesis
      by (auto simp: apply_filter_def active_filter_def alloc_def split: sum.splits)
  qed
qed

lemma apply_filter_frame:
  assumes "apply_filter h l F key test = (h', res)" and "take n h = h0" and "n \<le> length h"
  shows "take n h' = h0 \<and> n \<le> length h'"
  using apply_filter_cases [OF assms(1)] assms(2,3) by auto


lemma get_schedule_frame:
  assumes "get_schedule h self_tasks F = (h', res)"
  shows "take (length h) h' = h \<and> length h \<le> length h'"
proof (cases "h ! self_tasks")
  case (ListObj xs)
  with assms show ?thesis by (simp add: get_schedule_def)
next
  case (DictObj s)
  let ?h1 = "h @ [ListObj (map snd s)]"
  obtain h2 r2 where f1: "apply_filter ?h1 (length h) F ''status'' status_is = (h2, r2)"
    by (cases "apply_filter ?h1 (length h) F ''status'' status_is")
  from apply_filter_frame [OF f1, of "length h" h]
  have fr2: "take (length h) h2 = h" "length h \<le> length h2" by auto
  show ?thesis
  proof (cases r2)
    case (Inl e)
    with assms DictObj f1 fr2 show ?thesis by (simp add: get_schedule_def alloc_def)
  next
    case (Inr l1)
    from apply_filter_cases [OF f1] Inr have l1: "length h \<le> l1" by auto
    obtain h3 r3 where f2: "apply_filter h2 l1 F ''priority_min'' priority_at_least = (h3, r3)"
      by (cases "apply_filter h2 l1 F ''priority_min'' priority_at_least")
    from apply_filter_frame [OF f2 fr2]
    have fr3: "take (length h) h3 = h" "length h \<le> length h3" by auto
    show ?thesis
    proof (cases r3)
      case (Inl e)
      with assms DictObj f1 f2 \<open>r2 = Inr l1\<close> fr3 show ?thesis
        by (simp add: get_schedule_def alloc_def)
    next
      case r3: (Inr l2)
      from apply_filter_cases [OF f2] r3 l1 fr2 have l2: "length h \<le> l2" by auto
      then have upd: "take (length h) (h3[l2 := v]) = h" for v
        using fr3 by simp
      from assms DictObj f1 f2 \<open>r2 = Inr l1\<close> r3 fr3 upd show ?thesis
        by (auto simp: get_schedule_def alloc_def split: sum.splits)
    qed
  qed
qed












text \<open>The same with an empty status: the pending task is returned, although its status
  is not the empty string.\<close>

lemma get_schedule_empty_status_ignored:
  "map_of (the empty_status_filters) ''status'' = Some (PStr []) \<and>
   map (\<lambda>t. t ''status'') (map snd one_task_store) = [Some (PStr ''pending'')] \<and>
   filter (status_matches (PStr [])) (map snd one_task_store) = [] \<and>
   \<not> isl (snd (get_schedule [DictObj one_task_store] 0 empty_status_filters)) \<and>
   list_at (fst (get_schedule [DictObj one_task_store] 0 empty_status_filters))
     (sr_tasks (projr (snd (get_schedule [DictObj one_task_store] 0 empty_status_filters))))
     = map snd one_task_store"
  by (simp add: sched_defs engine_defs)



text \<open>
  Claim C10. \<^verbatim>\<open>get_schedule\<close> is read-only: whatever the filters, and whether it returns
  or raises, every object that existed before the call is the same after it, in
  particular the dictionary \<^verbatim>\<open>self.tasks\<close>, with its keys, their order and every field of
  every task. The call only adds objects: the lists it builds, one of which it sorts.
\<close>

theorem get_schedule_read_only:
  assumes "self_tasks < length h"
    and "get_schedule h self_tasks filters = (h', res)"
  shows "h' ! self_tasks = h ! self_tasks \<and> (\<forall>a < length h. h' ! a = h ! a) \<and>
         length h \<le> length h'"
proof -
  from get_schedule_frame [OF assms(2)]
  have t: "take (length h) h' = h" and l: "length h \<le> length h'"
    by auto
  have "h' ! a = h ! a" if "a < length h" for a
    using that t by (metis nth_take)
  with l assms(1) show ?thesis by blast
qed

theorem get_schedule_read_only_witness:
  "(0 :: nat) < length [DictObj two_task_store] \<and>
   fst (get_schedule [DictObj two_task_store] 0 floor_filters) ! 0 = DictObj two_task_store \<and>
   length [DictObj two_task_store]
     \<le> length (fst (get_schedule [DictObj two_task_store] 0 floor_filters)) \<and>
   map fst two_task_store = [''ab12cd34'', ''ef56ab78''] \<and>
   map (\<lambda>t. t ''id'')
     (list_at (fst (get_schedule [DictObj two_task_store] 0 floor_filters))
        (sr_tasks (projr (snd (get_schedule [DictObj two_task_store] 0 floor_filters)))))
     = [Some (PStr ''ef56ab78''), Some (PStr ''ab12cd34'')]"
proof -
  have ev: "map fst two_task_store = [''ab12cd34'', ''ef56ab78''] \<and>
     map (\<lambda>t. t ''id'')
       (list_at (fst (get_schedule [DictObj two_task_store] 0 floor_filters))
          (sr_tasks (projr (snd (get_schedule [DictObj two_task_store] 0 floor_filters)))))
       = [Some (PStr ''ef56ab78''), Some (PStr ''ab12cd34'')]"
    by (simp add: sched_defs engine_defs)
  have g: "get_schedule [DictObj two_task_store] 0 floor_filters =
      (fst (get_schedule [DictObj two_task_store] 0 floor_filters),
       snd (get_schedule [DictObj two_task_store] 0 floor_filters))"
    by simp
  have n: "(0 :: nat) < length [DictObj two_task_store]" by simp
  from get_schedule_read_only [OF n g] ev show ?thesis by simp
qed

end
